theory Spec2Isabelle
  imports Complex_Main "HOL-Library.Log_Nat"
begin

section \<open>Binary-option replication: the model\<close>

text \<open>
  The development embeds \<^verbatim>\<open>replication.py\<close>: the function
  \<^verbatim>\<open>replicate_binary_option\<close> (strike selection, weights, note, total cost) and the
  numerical part of \<^verbatim>\<open>plot_binary_replication_payoff\<close> (strike recovery from the note,
  the price grid and the two payoff curves handed to the renderer).

  Numbers. The source computes with IEEE doubles. Here a finite double is the exact
  rational it denotes (\<^typ>\<open>rat\<close>), arithmetic on finite values is exact, and rounding is
  not modelled. What numpy produces outside the finite values (division by a zero width
  gives \<^verbatim>\<open>inf\<close> with a warning, not an exception) is kept through the type
  \<open>npfloat\<close>; negative zero is not distinguished from zero. The instrument table and the
  arguments of both functions hold finite numbers.
\<close>

subsection \<open>numpy scalars\<close>

datatype npfloat = Fin rat | PInf | NInf | NaN

fun np_add :: "npfloat \<Rightarrow> npfloat \<Rightarrow> npfloat" where
  "np_add (Fin a) (Fin b) = Fin (a + b)"
| "np_add NaN y = NaN"
| "np_add x NaN = NaN"
| "np_add PInf NInf = NaN"
| "np_add NInf PInf = NaN"
| "np_add PInf y = PInf"
| "np_add x PInf = PInf"
| "np_add NInf y = NInf"
| "np_add x NInf = NInf"

fun np_neg :: "npfloat \<Rightarrow> npfloat" where
  "np_neg (Fin a) = Fin (- a)"
| "np_neg PInf = NInf"
| "np_neg NInf = PInf"
| "np_neg NaN = NaN"

definition np_sub :: "npfloat \<Rightarrow> npfloat \<Rightarrow> npfloat" where
  "np_sub x y = np_add x (np_neg y)"

fun np_mul :: "npfloat \<Rightarrow> npfloat \<Rightarrow> npfloat" where
  "np_mul (Fin a) (Fin b) = Fin (a * b)"
| "np_mul NaN y = NaN"
| "np_mul x NaN = NaN"
| "np_mul PInf (Fin b) = (if b = 0 then NaN else if 0 < b then PInf else NInf)"
| "np_mul NInf (Fin b) = (if b = 0 then NaN else if 0 < b then NInf else PInf)"
| "np_mul (Fin a) PInf = (if a = 0 then NaN else if 0 < a then PInf else NInf)"
| "np_mul (Fin a) NInf = (if a = 0 then NaN else if 0 < a then NInf else PInf)"
| "np_mul PInf PInf = PInf"
| "np_mul NInf NInf = PInf"
| "np_mul PInf NInf = NInf"
| "np_mul NInf PInf = NInf"

fun np_div :: "npfloat \<Rightarrow> npfloat \<Rightarrow> npfloat" where
  "np_div (Fin a) (Fin b) =
     (if b = 0 then (if a = 0 then NaN else if 0 < a then PInf else NInf)
      else Fin (a / b))"
| "np_div NaN y = NaN"
| "np_div x NaN = NaN"
| "np_div (Fin a) y = Fin 0"
| "np_div PInf (Fin b) = (if 0 \<le> b then PInf else NInf)"
| "np_div NInf (Fin b) = (if 0 \<le> b then NInf else PInf)"
| "np_div PInf y = NaN"
| "np_div NInf y = NaN"

fun np_maximum :: "npfloat \<Rightarrow> npfloat \<Rightarrow> npfloat" where
  "np_maximum (Fin a) (Fin b) = Fin (max a b)"
| "np_maximum NaN y = NaN"
| "np_maximum x NaN = NaN"
| "np_maximum PInf y = PInf"
| "np_maximum x PInf = PInf"
| "np_maximum NInf y = y"
| "np_maximum x NInf = x"

subsection \<open>Exceptions\<close>

text \<open>
  Each \<^verbatim>\<open>raise\<close> of the source is a value. The source raises \<^verbatim>\<open>ValueError\<close> with the
  message "No suitable strikes found for replication." where the specification speaks of
  NoSuitableStrikesError, \<^verbatim>\<open>ValueError\<close> with "Option type must be 'call' or 'put'."
  where it speaks of InvalidOptionClassError, and \<^verbatim>\<open>KeyError\<close> (a missing dictionary
  key) where it speaks of MalformedReplicationResultError.
\<close>

datatype py_error = ValueError string | KeyError string | IndexError string

definition no_suitable_strikes :: py_error where
  "no_suitable_strikes = ValueError ''No suitable strikes found for replication.''"

definition invalid_option_type :: py_error where
  "invalid_option_type = ValueError ''Option type must be 'call' or 'put'.''"

subsection \<open>The instrument table and the replication dictionary\<close>

text \<open>
  A row of the DataFrame, with the columns the source reads. The parameters
  \<^verbatim>\<open>option_type\<close> and \<^verbatim>\<open>strike\<close> of the two functions are written \<open>binary_type\<close> and
  \<open>binary_strike\<close> below, the column names being taken by the record.
\<close>

record vanilla_option =
  option_type :: string
  strike :: rat
  expiration_timestamp :: int
  instrument_name :: string
  last_price :: rat

text \<open>
  The dictionary returned by \<^verbatim>\<open>replicate_binary_option\<close> and read by
  \<^verbatim>\<open>plot_binary_replication_payoff\<close>. The keys the reader looks up may be absent in a
  dictionary built elsewhere, hence the options. The key \<^verbatim>\<open>'note'\<close> is the field
  \<open>note_text\<close>.
\<close>

record replication_leg =
  instrument :: string
  weight :: "npfloat option"
  cost :: rat

record replication =
  option_1 :: "replication_leg option"
  option_2 :: "replication_leg option"
  note_text :: "string option"
  total_cost :: npfloat

subsection \<open>Rendering a float, as an f-string does\<close>

text \<open>
  \<^verbatim>\<open>f"{K1}"\<close> on a float64 prints the shortest decimal that reads back as the same
  double: positional notation with at least one fractional digit when the magnitude is
  zero or in \<open>[1e-4, 1e16)\<close>, exponent notation otherwise. A double is identified with
  that decimal. The shortest decimal has at most 17 significant digits, so a positional
  rendering has at most 20 fractional digits and a mantissa at most 16.
\<close>

definition digit_char :: "nat \<Rightarrow> char" where
  "digit_char d = ''0123456789'' ! d"

fun str_nat :: "nat \<Rightarrow> string" where
  "str_nat n = (if n < 10 then [digit_char n] else str_nat (n div 10) @ [digit_char (n mod 10)])"

declare str_nat.simps [simp del]

fun frac_digits :: "nat \<Rightarrow> rat \<Rightarrow> string" where
  "frac_digits 0 f = []"
| "frac_digits (Suc n) f =
     (if f = 0 then []
      else digit_char (nat \<lfloor>f * 10\<rfloor>) # frac_digits n (f * 10 - of_int \<lfloor>f * 10\<rfloor>))"

definition positional :: "rat \<Rightarrow> string" where
  "positional a =
     (let f = a - of_int \<lfloor>a\<rfloor>
      in str_nat (nat \<lfloor>a\<rfloor>) @ ''.'' @ (if f = 0 then ''0'' else frac_digits 20 f))"

definition decimal_exponent :: "rat \<Rightarrow> int" where
  "decimal_exponent a =
     (if 1 \<le> a then int (floorlog 10 (nat \<lfloor>a\<rfloor>)) - 1
      else - int (floorlog 10 (nat \<lceil>1 / a\<rceil> - 1)))"

definition scientific :: "rat \<Rightarrow> string" where
  "scientific a =
     (let x = decimal_exponent a;
          m = (if 0 \<le> x then a / 10 ^ nat x else a * 10 ^ nat (- x));
          f = m - of_int \<lfloor>m\<rfloor>;
          e = str_nat (nat \<bar>x\<bar>)
      in str_nat (nat \<lfloor>m\<rfloor>) @ (if f = 0 then [] else ''.'' @ frac_digits 16 f)
         @ ''e'' @ (if x < 0 then ''-'' else ''+'') @ (if length e < 2 then ''0'' @ e else e))"

definition float_str :: "rat \<Rightarrow> string" where
  "float_str q =
     (let a = \<bar>q\<bar>
      in (if q < 0 then ''-'' else [])
         @ (if a = 0 \<or> (1 / 10 ^ 4 \<le> a \<and> a < 10 ^ 16) then positional a else scientific a))"

subsection \<open>Strike selection and weights: \<^verbatim>\<open>replicate_binary_option\<close>\<close>

text \<open>
  \<^verbatim>\<open>np.searchsorted\<close> on an ascending array: \<^verbatim>\<open>side='left'\<close> returns the first index
  whose element is not below the value, \<^verbatim>\<open>side='right'\<close> the first index whose element
  is above it; both return the length when there is none.
\<close>

definition searchsorted_left :: "rat list \<Rightarrow> rat \<Rightarrow> nat" where
  "searchsorted_left a v = length (takeWhile (\<lambda>x. x < v) a)"

definition searchsorted_right :: "rat list \<Rightarrow> rat \<Rightarrow> nat" where
  "searchsorted_right a v = length (takeWhile (\<lambda>x. x \<le> v) a)"

definition df_expiry :: "vanilla_option list \<Rightarrow> int \<Rightarrow> vanilla_option list" where
  "df_expiry vanilla_option_data expiry_timestamp =
     filter (\<lambda>r. expiration_timestamp r = expiry_timestamp) vanilla_option_data"

definition df_class :: "vanilla_option list \<Rightarrow> string \<Rightarrow> vanilla_option list" where
  "df_class df cls = filter (\<lambda>r. option_type r = cls) df"

text \<open>\<^verbatim>\<open>np.sort(df['strike'].unique())\<close>\<close>

definition sorted_unique_strikes :: "vanilla_option list \<Rightarrow> rat list" where
  "sorted_unique_strikes df = sort (remdups (map strike df))"

text \<open>
  Lines 31 to 43 and 58 to 69 of the source: the two strikes \<open>(K1, K2)\<close>, or the
  exception raised on the way.
\<close>

definition select_strikes ::
  "vanilla_option list \<Rightarrow> string \<Rightarrow> rat \<Rightarrow> int \<Rightarrow> rat \<Rightarrow> py_error + (rat \<times> rat)" where
  "select_strikes vanilla_option_data binary_type binary_strike expiry_timestamp
       replication_precision =
     (let dfe = df_expiry vanilla_option_data expiry_timestamp
      in if binary_type = ''call'' then
           (let df_calls = df_class dfe ''call'';
                strikes = sorted_unique_strikes df_calls;
                strike1_idx = searchsorted_left strikes binary_strike;
                strike2_idx = searchsorted_left strikes (binary_strike + replication_precision)
            in if length strikes \<le> strike1_idx \<or> length strikes \<le> strike2_idx
               then Inl no_suitable_strikes
               else Inr (strikes ! strike1_idx, strikes ! strike2_idx))
         else if binary_type = ''put'' then
           (let df_puts = df_class dfe ''put'';
                strikes = sorted_unique_strikes df_puts;
                strike2_idx = int (searchsorted_right strikes binary_strike) - 1;
                strike1_idx =
                  int (searchsorted_right strikes (binary_strike - replication_precision)) - 1
            in if strike1_idx < 0 \<or> strike2_idx < 0
               then Inl no_suitable_strikes
               else Inr (strikes ! nat strike1_idx, strikes ! nat strike2_idx))
         else Inl invalid_option_type)"

text \<open>\<^verbatim>\<open>df[...].iloc[0]\<close>: the first row, \<^verbatim>\<open>IndexError\<close> on an empty selection.\<close>

definition iloc0 :: "'a list \<Rightarrow> py_error + 'a" where
  "iloc0 rows =
     (case rows of [] \<Rightarrow> Inl (IndexError ''single positional indexer is out-of-bounds'')
      | r # _ \<Rightarrow> Inr r)"

definition format_note :: "string \<Rightarrow> string \<Rightarrow> rat \<Rightarrow> rat \<Rightarrow> string" where
  "format_note cls fn K1 K2 =
     ''Binary '' @ cls @ '' approx by ('' @ fn @ ''('' @ float_str K1 @ '') - '' @ fn @ ''(''
       @ float_str K2 @ '')) / ('' @ float_str K2 @ '' - '' @ float_str K1 @ '')''"

text \<open>
  Lines 45 to 56 and 71 to 82: the two rows, the weights and the dictionary. Both
  branches of the source are this text, up to the class name and the letter in the note.
\<close>

definition build_replication ::
  "vanilla_option list \<Rightarrow> string \<Rightarrow> string \<Rightarrow> rat \<Rightarrow> rat \<Rightarrow> py_error + replication" where
  "build_replication df cls fn K1 K2 =
     (case iloc0 (filter (\<lambda>r. strike r = K1) df) of
        Inl e \<Rightarrow> Inl e
      | Inr opt1 \<Rightarrow>
          (case iloc0 (filter (\<lambda>r. strike r = K2) df) of
             Inl e \<Rightarrow> Inl e
           | Inr opt2 \<Rightarrow>
               (let weight1 = np_div (Fin 1) (Fin (K2 - K1));
                    weight2 = np_div (Fin (- 1)) (Fin (K2 - K1))
                in Inr \<lparr>option_1 = Some \<lparr>instrument = instrument_name opt1,
                                           weight = Some weight1, cost = last_price opt1\<rparr>,
                        option_2 = Some \<lparr>instrument = instrument_name opt2,
                                           weight = Some weight2, cost = last_price opt2\<rparr>,
                        note_text = Some (format_note cls fn K1 K2),
                        total_cost = np_add (np_mul weight1 (Fin (last_price opt1)))
                                            (np_mul weight2 (Fin (last_price opt2)))\<rparr>)))"

definition replicate_binary_option ::
  "vanilla_option list \<Rightarrow> string \<Rightarrow> rat \<Rightarrow> int \<Rightarrow> rat \<Rightarrow> py_error + replication" where
  "replicate_binary_option vanilla_option_data binary_type binary_strike expiry_timestamp
       replication_precision =
     (case select_strikes vanilla_option_data binary_type binary_strike expiry_timestamp
             replication_precision of
        Inl e \<Rightarrow> Inl e
      | Inr (K1, K2) \<Rightarrow>
          (let dfc = df_class (df_expiry vanilla_option_data expiry_timestamp) binary_type
           in if binary_type = ''call'' then build_replication dfc ''call'' ''C'' K1 K2
              else build_replication dfc ''put'' ''P'' K1 K2))"

subsection \<open>Reading the strikes back: the pattern and \<^verbatim>\<open>float\<close>\<close>

text \<open>
  \<^verbatim>\<open>re.findall(r"\((\d+\.?\d*)\)", note)\<close>. A match at a position is an opening
  parenthesis, one or more digits, optionally a point and further digits, and a closing
  parenthesis; the group is what stands between the parentheses. The three quantifiers
  are greedy, and giving back characters never helps: after fewer digits the next
  character is a digit, which neither the point nor the closing parenthesis accepts. So
  the greedy reading below decides the match. The scan resumes after a match, and one
  character further where there is none. Digits are the ASCII digits.
\<close>

definition is_digit :: "char \<Rightarrow> bool" where
  "is_digit c = (c \<in> set ''0123456789'')"

definition match_at :: "string \<Rightarrow> (string \<times> string) option" where
  "match_at s =
     (case s of
        [] \<Rightarrow> None
      | c # r \<Rightarrow>
          if c \<noteq> CHR ''('' then None
          else let d1 = takeWhile is_digit r; r1 = dropWhile is_digit r
               in if d1 = [] then None
                  else (case r1 of
                          [] \<Rightarrow> None
                        | c1 # r2 \<Rightarrow>
                            if c1 = CHR '')'' then Some (d1, r2)
                            else if c1 = CHR ''.'' then
                              (let d2 = takeWhile is_digit r2; r3 = dropWhile is_digit r2
                               in case r3 of
                                    [] \<Rightarrow> None
                                  | c3 # r4 \<Rightarrow>
                                      if c3 = CHR '')'' then Some (d1 @ ''.'' @ d2, r4)
                                      else None)
                            else None))"

function findall :: "string \<Rightarrow> string list" where
  "findall [] = []"
| "findall (c # cs) =
     (case match_at (c # cs) of
        Some (g, r) \<Rightarrow> g # findall r
      | None \<Rightarrow> findall cs)"
  by pat_completeness auto
termination
proof (relation "measure length")
  show "wf (measure length)" by simp
next
  fix c :: char and cs x2 g r
  assume m: "match_at (c # cs) = Some x2" and x: "(g, r) = x2"
  have a: "length (dropWhile is_digit cs) \<le> length cs" for cs
    by (rule length_dropWhile_le)
  have "length r < length (c # cs)"
    using m x a [of cs] a [of "tl (dropWhile is_digit cs)"]
    by (auto simp: match_at_def Let_def split: if_splits list.splits
             simp del: dropWhile_eq_Nil_conv)
  then show "(r, c # cs) \<in> measure length" by simp
next
  fix c :: char and cs
  show "(cs, c # cs) \<in> measure length" by simp
qed

text \<open>
  \<^verbatim>\<open>float(s)\<close> on a group of the pattern: digits, optionally a point and digits. Any
  other text is a \<^verbatim>\<open>ValueError\<close> (\<open>None\<close> here); the pattern never captures one.
\<close>

definition digit_val :: "char \<Rightarrow> nat" where
  "digit_val c = of_char c - 48"

definition nat_of_str :: "string \<Rightarrow> nat" where
  "nat_of_str s = foldl (\<lambda>acc c. 10 * acc + digit_val c) 0 s"

fun frac_of_str :: "string \<Rightarrow> rat" where
  "frac_of_str [] = 0"
| "frac_of_str (c # cs) = (of_nat (digit_val c) + frac_of_str cs) / 10"

definition float_of_str :: "string \<Rightarrow> rat option" where
  "float_of_str s =
     (let ip = takeWhile is_digit s; r = dropWhile is_digit s
      in if ip = [] then None
         else (case r of
                 [] \<Rightarrow> Some (of_nat (nat_of_str ip))
               | c # fr \<Rightarrow>
                   if c = CHR ''.'' \<and> list_all is_digit fr
                   then Some (of_nat (nat_of_str ip) + frac_of_str fr)
                   else None))"

subsection \<open>The payoff curves: \<^verbatim>\<open>plot_binary_replication_payoff\<close>\<close>

text \<open>
  Lines 106 to 116: the strikes read from the note, or estimated from the first weight
  when the note has fewer than two groups. The weights are numpy scalars, as
  \<^verbatim>\<open>replicate_binary_option\<close> stores them, so \<^verbatim>\<open>1 / w1\<close> does not raise.
\<close>

text \<open>\<^verbatim>\<open>replication.get('note', '')\<close>\<close>

definition note_of :: "replication \<Rightarrow> string" where
  "note_of rep = (case note_text rep of None \<Rightarrow> [] | Some s \<Rightarrow> s)"

definition strikes_from_note :: "rat \<Rightarrow> replication \<Rightarrow> py_error + (npfloat \<times> npfloat)" where
  "strikes_from_note binary_strike rep =
     (let note = note_of rep;
          match = findall note
      in if 2 \<le> length match then
           (case (float_of_str (match ! 0), float_of_str (match ! 1)) of
              (Some K1, Some K2) \<Rightarrow> Inr (Fin K1, Fin K2)
            | _ \<Rightarrow> Inl (ValueError ''could not convert string to float''))
         else
           (case option_1 rep of
              None \<Rightarrow> Inl (KeyError ''option_1'')
            | Some leg1 \<Rightarrow>
                (case weight leg1 of
                   None \<Rightarrow> Inl (KeyError ''weight'')
                 | Some w1 \<Rightarrow>
                     (let diff = np_div (Fin 1) w1
                      in Inr (Fin binary_strike, np_add (Fin binary_strike) diff)))))"

text \<open>\<^verbatim>\<open>np.linspace(start, stop, num)\<close>\<close>

definition linspace :: "rat \<Rightarrow> rat \<Rightarrow> nat \<Rightarrow> rat list" where
  "linspace start stop num =
     map (\<lambda>i. start + of_nat i * ((stop - start) / of_nat (num - 1))) [0..<num]"

definition call_payoff :: "rat \<Rightarrow> npfloat \<Rightarrow> npfloat" where
  "call_payoff S K = np_maximum (np_sub (Fin S) K) (Fin 0)"

definition put_payoff :: "rat \<Rightarrow> npfloat \<Rightarrow> npfloat" where
  "put_payoff S K = np_maximum (np_sub K (Fin S)) (Fin 0)"

definition leg_weight :: "string \<Rightarrow> replication_leg option \<Rightarrow> py_error + npfloat" where
  "leg_weight key leg =
     (case leg of
        None \<Rightarrow> Inl (KeyError key)
      | Some l \<Rightarrow> (case weight l of None \<Rightarrow> Inl (KeyError ''weight'') | Some w \<Rightarrow> Inr w))"

text \<open>
  The three sequences the source passes to the renderer: the prices, the ideal payoff
  and the replicated payoff, elementwise over the prices.
\<close>

record payoff_curve =
  prices :: "rat list"
  ideal_payoff :: "rat list"
  replicated_payoff :: "npfloat list"

definition plot_binary_replication_payoff ::
  "rat \<Rightarrow> string \<Rightarrow> replication \<Rightarrow> rat list option \<Rightarrow> py_error + payoff_curve" where
  "plot_binary_replication_payoff binary_strike binary_type rep price_range_arg =
     (let price_range =
            (case price_range_arg of
               None \<Rightarrow> linspace (binary_strike * (1 / 2)) (binary_strike * (3 / 2)) 500
             | Some p \<Rightarrow> p)
      in case strikes_from_note binary_strike rep of
           Inl e \<Rightarrow> Inl e
         | Inr (K1, K2) \<Rightarrow>
             if binary_type \<noteq> ''call'' \<and> binary_type \<noteq> ''put'' then Inl invalid_option_type
             else
               (let payoff = (if binary_type = ''call'' then call_payoff else put_payoff);
                    payoff_opt1 = map (\<lambda>S. payoff S K1) price_range;
                    payoff_opt2 = map (\<lambda>S. payoff S K2) price_range
                in case leg_weight ''option_1'' (option_1 rep) of
                     Inl e \<Rightarrow> Inl e
                   | Inr w1 \<Rightarrow>
                       (case leg_weight ''option_2'' (option_2 rep) of
                          Inl e \<Rightarrow> Inl e
                        | Inr w2 \<Rightarrow>
                            Inr \<lparr>prices = price_range,
                                 ideal_payoff =
                                   (if binary_type = ''call''
                                    then map (\<lambda>S. if binary_strike \<le> S then 1 else 0) price_range
                                    else map (\<lambda>S. if S \<le> binary_strike then 1 else 0) price_range),
                                 replicated_payoff =
                                   map2 (\<lambda>p1 p2. np_add (np_mul w1 p1) (np_mul w2 p2))
                                     payoff_opt1 payoff_opt2\<rparr>)))"

subsection \<open>The strikes on offer\<close>

text \<open>The strikes of the rows with the given expiration and class.\<close>

definition available_strikes :: "vanilla_option list \<Rightarrow> int \<Rightarrow> string \<Rightarrow> rat set" where
  "available_strikes vanilla_option_data expiry_timestamp cls =
     strike ` set (df_class (df_expiry vanilla_option_data expiry_timestamp) cls)"

subsection \<open>A table for the scenarios\<close>

text \<open>
  Calls and puts at the strikes 9000, 9500, 10000, 10500 and 11000 for one expiration,
  in no particular order, and one call of a later expiration.
\<close>

definition instrument_row :: "string \<Rightarrow> rat \<Rightarrow> int \<Rightarrow> string \<Rightarrow> rat \<Rightarrow> vanilla_option" where
  "instrument_row cls k expiry name price =
     \<lparr>option_type = cls, strike = k, expiration_timestamp = expiry,
      instrument_name = name, last_price = price\<rparr>"

definition scenario_table :: "vanilla_option list" where
  "scenario_table =
     [instrument_row ''call'' 10000 1735286400000 ''BTC-27DEC24-10000-C'' (9 / 100),
      instrument_row ''put'' 10000 1735286400000 ''BTC-27DEC24-10000-P'' (5 / 100),
      instrument_row ''call'' 9000 1735286400000 ''BTC-27DEC24-9000-C'' (15 / 100),
      instrument_row ''put'' 9000 1735286400000 ''BTC-27DEC24-9000-P'' (2 / 100),
      instrument_row ''call'' 11000 1735286400000 ''BTC-27DEC24-11000-C'' (4 / 100),
      instrument_row ''put'' 11000 1735286400000 ''BTC-27DEC24-11000-P'' (11 / 100),
      instrument_row ''call'' 10200 1738310400000 ''BTC-31JAN25-10200-C'' (10 / 100),
      instrument_row ''call'' 9500 1735286400000 ''BTC-27DEC24-9500-C'' (12 / 100),
      instrument_row ''put'' 9500 1735286400000 ''BTC-27DEC24-9500-P'' (3 / 100),
      instrument_row ''call'' 10500 1735286400000 ''BTC-27DEC24-10500-C'' (6 / 100),
      instrument_row ''put'' 10500 1735286400000 ''BTC-27DEC24-10500-P'' (8 / 100)]"

subsection \<open>Replication dictionaries for the scenarios\<close>

text \<open>
  What \<^verbatim>\<open>replicate_binary_option\<close> returns on the scenario table for the target 10000
  and the precision 500, as a call and as a put.
\<close>

definition scenario_call_replication :: replication where
  "scenario_call_replication =
     \<lparr>option_1 = Some \<lparr>instrument = ''BTC-27DEC24-10000-C'', weight = Some (Fin (1 / 500)),
                        cost = 9 / 100\<rparr>,
      option_2 = Some \<lparr>instrument = ''BTC-27DEC24-10500-C'', weight = Some (Fin (- 1 / 500)),
                        cost = 6 / 100\<rparr>,
      note_text = Some ''Binary call approx by (C(10000.0) - C(10500.0)) / (10500.0 - 10000.0)'',
      total_cost = Fin (3 / 50000)\<rparr>"

definition scenario_put_replication :: replication where
  "scenario_put_replication =
     \<lparr>option_1 = Some \<lparr>instrument = ''BTC-27DEC24-9500-P'', weight = Some (Fin (1 / 500)),
                        cost = 3 / 100\<rparr>,
      option_2 = Some \<lparr>instrument = ''BTC-27DEC24-10000-P'', weight = Some (Fin (- 1 / 500)),
                        cost = 5 / 100\<rparr>,
      note_text = Some ''Binary put approx by (P(9500.0) - P(10000.0)) / (10000.0 - 9500.0)'',
      total_cost = Fin (- 1 / 25000)\<rparr>"

text \<open>A table with a gap: calls at 9000 and 11000 only, and what the source returns on it.\<close>

definition gap_table :: "vanilla_option list" where
  "gap_table =
     [instrument_row ''call'' 9000 1735286400000 ''BTC-27DEC24-9000-C'' (15 / 100),
      instrument_row ''call'' 11000 1735286400000 ''BTC-27DEC24-11000-C'' (4 / 100)]"

definition gap_replication :: replication where
  "gap_replication =
     \<lparr>option_1 = Some \<lparr>instrument = ''BTC-27DEC24-11000-C'', weight = Some PInf,
                        cost = 4 / 100\<rparr>,
      option_2 = Some \<lparr>instrument = ''BTC-27DEC24-11000-C'', weight = Some NInf,
                        cost = 4 / 100\<rparr>,
      note_text = Some ''Binary call approx by (C(11000.0) - C(11000.0)) / (11000.0 - 11000.0)'',
      total_cost = NaN\<rparr>"

text \<open>A dictionary whose legs carry no weight and whose note has a single group.\<close>

definition weightless_replication :: replication where
  "weightless_replication =
     \<lparr>option_1 = Some \<lparr>instrument = ''BTC-27DEC24-10000-C'', weight = None, cost = 9 / 100\<rparr>,
      option_2 = Some \<lparr>instrument = ''BTC-27DEC24-10500-C'', weight = None, cost = 6 / 100\<rparr>,
      note_text = Some ''Binary call approx, width (500.0)'',
      total_cost = Fin (3 / 50000)\<rparr>"

subsection \<open>Vocabulary of the statements\<close>

text \<open>A leg that is absent or has no weight; a dictionary with both weights and a note.\<close>

definition missing_weight :: "replication_leg option \<Rightarrow> bool" where
  "missing_weight leg = (case leg of None \<Rightarrow> True | Some l \<Rightarrow> weight l = None)"

definition complete_replication :: "replication \<Rightarrow> bool" where
  "complete_replication rep =
     (\<not> missing_weight (option_1 rep) \<and> \<not> missing_weight (option_2 rep)
      \<and> note_text rep \<noteq> None)"

text \<open>The first row of a selection with the given strike: \<^verbatim>\<open>df[df['strike'] == K].iloc[0]\<close>.\<close>

definition first_row :: "vanilla_option list \<Rightarrow> rat \<Rightarrow> vanilla_option" where
  "first_row df k = hd (filter (\<lambda>r. strike r = k) df)"

text \<open>
  A table with a negative strike (spread options are quoted at such strikes), and what
  \<^verbatim>\<open>replicate_binary_option\<close> returns on it for the target -1200 and the precision 500.
\<close>

definition negative_strike_table :: "vanilla_option list" where
  "negative_strike_table =
     [instrument_row ''call'' (- 1000) 1735286400000 ''SPREAD-27DEC24-M1000-C'' (16 / 100),
      instrument_row ''call'' 500 1735286400000 ''SPREAD-27DEC24-500-C'' (1 / 100)]"

definition negative_strike_replication :: replication where
  "negative_strike_replication =
     \<lparr>option_1 = Some \<lparr>instrument = ''SPREAD-27DEC24-M1000-C'', weight = Some (Fin (1 / 1500)),
                        cost = 16 / 100\<rparr>,
      option_2 = Some \<lparr>instrument = ''SPREAD-27DEC24-500-C'', weight = Some (Fin (- 1 / 1500)),
                        cost = 1 / 100\<rparr>,
      note_text = Some ''Binary call approx by (C(-1000.0) - C(500.0)) / (500.0 - -1000.0)'',
      total_cost = Fin (1 / 10000)\<rparr>"

text \<open>
  A strike that an f-string prints in positional notation without a sign: not negative,
  below \<open>1e16\<close>, zero or at least \<open>1e-4\<close>, with at most 20 fractional digits (as
  every double of that range has in its shortest rendering).
\<close>

definition plain_decimal :: "rat \<Rightarrow> bool" where
  "plain_decimal K =
     (0 \<le> K \<and> K < 10 ^ 16 \<and> (K = 0 \<or> 1 / 10 ^ 4 \<le> K)
      \<and> of_int \<lfloor>K * 10 ^ 20\<rfloor> = K * 10 ^ 20)"

section \<open>Properties\<close>

subsection \<open>Binary search on the sorted strikes\<close>

lemma sorted_sorted_unique_strikes: "sorted (sorted_unique_strikes df)"
  by (simp add: sorted_unique_strikes_def)

lemma set_sorted_unique_strikes: "set (sorted_unique_strikes df) = strike ` set df"
  by (simp add: sorted_unique_strikes_def)

lemma takeWhile_short_iff: "length (takeWhile P xs) < length xs \<longleftrightarrow> (\<exists>k\<in>set xs. \<not> P k)"
  by (induction xs) auto

lemma searchsorted_left_in_bounds:
  "searchsorted_left xs v < length xs \<longleftrightarrow> (\<exists>k\<in>set xs. v \<le> k)"
  by (simp add: searchsorted_left_def takeWhile_short_iff not_less)

lemma nth_takeWhile_least:
  fixes xs :: "rat list"
  shows "sorted xs \<Longrightarrow> k \<in> set xs \<Longrightarrow> \<not> P k \<Longrightarrow> xs ! length (takeWhile P xs) \<le> k"
  by (induction xs) auto

lemma searchsorted_left_ge:
  "searchsorted_left xs v < length xs \<Longrightarrow> v \<le> xs ! searchsorted_left xs v"
  unfolding searchsorted_left_def
  using nth_length_takeWhile [of "\<lambda>x. x < v" xs] by simp

lemma searchsorted_left_least:
  "sorted xs \<Longrightarrow> k \<in> set xs \<Longrightarrow> v \<le> k \<Longrightarrow> xs ! searchsorted_left xs v \<le> k"
  unfolding searchsorted_left_def
  using nth_takeWhile_least [of xs k "\<lambda>x. x < v"] by simp

lemma takeWhile_mono_length:
  "(\<And>x. P x \<Longrightarrow> Q x) \<Longrightarrow> length (takeWhile P xs) \<le> length (takeWhile Q xs)"
  by (induction xs) auto

lemma searchsorted_left_mono: "v \<le> w \<Longrightarrow> searchsorted_left xs v \<le> searchsorted_left xs w"
  unfolding searchsorted_left_def by (rule takeWhile_mono_length) simp

lemma searchsorted_right_mono: "v \<le> w \<Longrightarrow> searchsorted_right xs v \<le> searchsorted_right xs w"
  unfolding searchsorted_right_def by (rule takeWhile_mono_length) simp

lemma searchsorted_right_pos:
  fixes xs :: "rat list"
  shows "sorted xs \<Longrightarrow> 0 < searchsorted_right xs v \<longleftrightarrow> (\<exists>k\<in>set xs. k \<le> v)"
  unfolding searchsorted_right_def by (cases xs) auto

lemma searchsorted_right_le:
  "0 < searchsorted_right xs v \<Longrightarrow> xs ! (searchsorted_right xs v - 1) \<le> v"
proof -
  assume p: "0 < searchsorted_right xs v"
  let ?t = "takeWhile (\<lambda>x. x \<le> v) xs"
  have "?t ! (length ?t - 1) \<in> set ?t"
    using p by (simp add: searchsorted_right_def)
  then have "?t ! (length ?t - 1) \<le> v"
    by (auto dest: set_takeWhileD)
  moreover have "?t ! (length ?t - 1) = xs ! (length ?t - 1)"
    using p by (intro takeWhile_nth) (simp add: searchsorted_right_def)
  ultimately show ?thesis by (simp add: searchsorted_right_def)
qed

lemma searchsorted_right_greatest:
  fixes xs :: "rat list"
  assumes "sorted xs" "k \<in> set xs" "k \<le> v"
  shows "k \<le> xs ! (searchsorted_right xs v - 1)"
proof -
  let ?t = "takeWhile (\<lambda>x. x \<le> v) xs"
  have eq: "?t = filter (\<lambda>x. x \<le> v) xs"
    using assms(1) by (induction xs) (auto simp: empty_filter_conv)
  then have kin: "k \<in> set ?t" using assms by simp
  then obtain i where i: "i < length ?t" "?t ! i = k"
    by (auto simp: in_set_conv_nth)
  have "sorted ?t" using assms(1) sorted_append [of ?t "dropWhile (\<lambda>x. x \<le> v) xs"] by simp
  then have "?t ! i \<le> ?t ! (length ?t - 1)"
    using i by (intro sorted_nth_mono) auto
  moreover have "?t ! (length ?t - 1) = xs ! (length ?t - 1)"
    using i by (intro takeWhile_nth) simp
  ultimately show ?thesis using i by (simp add: searchsorted_right_def)
qed

lemma set_strikes_available:
  "set (sorted_unique_strikes (df_class (df_expiry df e) cls)) = available_strikes df e cls"
  by (simp add: available_strikes_def set_sorted_unique_strikes)

lemma searchsorted_right_pred_less:
  "0 < searchsorted_right xs v \<Longrightarrow> searchsorted_right xs v - 1 < length xs"
  using length_takeWhile_le [of "\<lambda>x. x \<le> v" xs] unfolding searchsorted_right_def by linarith

subsection \<open>The scenario table\<close>

lemmas scenario_defs = scenario_table_def instrument_row_def available_strikes_def
  df_class_def df_expiry_def sorted_unique_strikes_def

lemma scenario_call_strikes:
  "sorted_unique_strikes (df_class (df_expiry scenario_table 1735286400000) ''call'')
     = [9000, 9500, 10000, 10500, 11000]"
  by (simp add: scenario_defs)

lemma scenario_put_strikes:
  "sorted_unique_strikes (df_class (df_expiry scenario_table 1735286400000) ''put'')
     = [9000, 9500, 10000, 10500, 11000]"
  by (simp add: scenario_defs)

lemma sel_call: "select_strikes scenario_table ''call'' 10000 1735286400000 500 = Inr (10000, 10500)"
  by (simp add: select_strikes_def Let_def scenario_call_strikes searchsorted_left_def)

lemma sel_put: "select_strikes scenario_table ''put'' 10000 1735286400000 500 = Inr (9500, 10000)"
  by (simp add: select_strikes_def Let_def scenario_put_strikes searchsorted_right_def)

subsection \<open>Strike selection\<close>

text \<open>
  C2 (as amended). Call case: when a strike at or above the target and a strike at or
  above target plus precision are on offer, the selector returns K1, the smallest strike
  on offer at or above the target, and K2, the smallest strike on offer at or above
  target plus precision; and K1 is at most K2 when the precision is not negative.
\<close>

theorem call_selector_least:
  assumes a1: "\<exists>k\<in>available_strikes df e ''call''. T \<le> k"
    and a2: "\<exists>k\<in>available_strikes df e ''call''. T + p \<le> k"
  shows "\<exists>K1 K2. select_strikes df ''call'' T e p = Inr (K1, K2)
           \<and> K1 \<in> available_strikes df e ''call'' \<and> T \<le> K1
           \<and> (\<forall>k\<in>available_strikes df e ''call''. T \<le> k \<longrightarrow> K1 \<le> k)
           \<and> K2 \<in> available_strikes df e ''call'' \<and> T + p \<le> K2
           \<and> (\<forall>k\<in>available_strikes df e ''call''. T + p \<le> k \<longrightarrow> K2 \<le> k)
           \<and> (0 \<le> p \<longrightarrow> K1 \<le> K2)"
proof -
  let ?xs = "sorted_unique_strikes (df_class (df_expiry df e) ''call'')"
  let ?i = "searchsorted_left ?xs T" and ?j = "searchsorted_left ?xs (T + p)"
  have s: "sorted ?xs" by (rule sorted_sorted_unique_strikes)
  have A: "set ?xs = available_strikes df e ''call''" by (rule set_strikes_available)
  have i: "?i < length ?xs" using a1 by (simp add: searchsorted_left_in_bounds A)
  have j: "?j < length ?xs" using a2 by (simp add: searchsorted_left_in_bounds A)
  have sel: "select_strikes df ''call'' T e p = Inr (?xs ! ?i, ?xs ! ?j)"
    using i j by (simp add: select_strikes_def Let_def)
  have m1: "?xs ! ?i \<in> available_strikes df e ''call''" using i A nth_mem by blast
  have m2: "?xs ! ?j \<in> available_strikes df e ''call''" using j A nth_mem by blast
  have g1: "T \<le> ?xs ! ?i" using i by (rule searchsorted_left_ge)
  have g2: "T + p \<le> ?xs ! ?j" using j by (rule searchsorted_left_ge)
  have l1: "\<forall>k\<in>available_strikes df e ''call''. T \<le> k \<longrightarrow> ?xs ! ?i \<le> k"
    using searchsorted_left_least [OF s] A by blast
  have l2: "\<forall>k\<in>available_strikes df e ''call''. T + p \<le> k \<longrightarrow> ?xs ! ?j \<le> k"
    using searchsorted_left_least [OF s] A by blast
  have o: "0 \<le> p \<longrightarrow> ?xs ! ?i \<le> ?xs ! ?j"
  proof
    assume "0 \<le> p"
    then have "?i \<le> ?j" by (intro searchsorted_left_mono) simp
    then show "?xs ! ?i \<le> ?xs ! ?j" using sorted_nth_mono [OF s _ j] by blast
  qed
  show ?thesis using sel m1 m2 g1 g2 l1 l2 o by blast
qed

text \<open>
  C2, witness: the scenario table, target 10000, precision 500 gives K1 = 10000 and
  K2 = 10500.
\<close>

theorem call_selector_least_witness:
  "select_strikes scenario_table ''call'' 10000 1735286400000 500 = Inr (10000, 10500)
   \<and> (\<exists>K1 K2. select_strikes scenario_table ''call'' 10000 1735286400000 500 = Inr (K1, K2)
         \<and> 10000 \<le> K1 \<and> 10000 + 500 \<le> K2 \<and> K1 \<le> K2)"
proof -
  have h1: "\<exists>k\<in>available_strikes scenario_table 1735286400000 ''call''. 10000 \<le> k"
    by (simp add: scenario_defs)
  have h2: "\<exists>k\<in>available_strikes scenario_table 1735286400000 ''call''. 10000 + 500 \<le> k"
    by (simp add: scenario_defs)
  show ?thesis
    using call_selector_least [OF h1 h2] sel_call by simp
qed

text \<open>
  C2, counterexample to the claim as stated: with the precision -1000 both indices are
  in bounds and the selector returns K1 = 10000 above K2 = 9000.
\<close>

theorem call_selector_negative_precision:
  "select_strikes scenario_table ''call'' 10000 1735286400000 (- 1000) = Inr (10000, 9000)
   \<and> \<not> (10000 :: rat) \<le> 9000"
  by (simp add: select_strikes_def Let_def scenario_call_strikes searchsorted_left_def)

text \<open>
  C3 (as amended). Put case: when a strike at or below the target and a strike at or
  below target minus precision are on offer, the selector returns K2, the largest strike
  on offer at or below the target, and K1, the largest strike on offer at or below target
  minus precision; and K1 is at most K2 when the precision is not negative.
\<close>

theorem put_selector_greatest:
  assumes a1: "\<exists>k\<in>available_strikes df e ''put''. k \<le> T"
    and a2: "\<exists>k\<in>available_strikes df e ''put''. k \<le> T - p"
  shows "\<exists>K1 K2. select_strikes df ''put'' T e p = Inr (K1, K2)
           \<and> K2 \<in> available_strikes df e ''put'' \<and> K2 \<le> T
           \<and> (\<forall>k\<in>available_strikes df e ''put''. k \<le> T \<longrightarrow> k \<le> K2)
           \<and> K1 \<in> available_strikes df e ''put'' \<and> K1 \<le> T - p
           \<and> (\<forall>k\<in>available_strikes df e ''put''. k \<le> T - p \<longrightarrow> k \<le> K1)
           \<and> (0 \<le> p \<longrightarrow> K1 \<le> K2)"
proof -
  let ?xs = "sorted_unique_strikes (df_class (df_expiry df e) ''put'')"
  let ?j = "searchsorted_right ?xs T" and ?i = "searchsorted_right ?xs (T - p)"
  have s: "sorted ?xs" by (rule sorted_sorted_unique_strikes)
  have A: "set ?xs = available_strikes df e ''put''" by (rule set_strikes_available)
  have j: "0 < ?j" using a1 by (simp add: searchsorted_right_pos [OF s] A)
  have i: "0 < ?i" using a2 by (simp add: searchsorted_right_pos [OF s] A)
  have jl: "?j - 1 < length ?xs" using j by (rule searchsorted_right_pred_less)
  have il: "?i - 1 < length ?xs" using i by (rule searchsorted_right_pred_less)
  have n: "nat (int ?j - 1) = ?j - 1" "nat (int ?i - 1) = ?i - 1" by simp_all
  have sel: "select_strikes df ''put'' T e p = Inr (?xs ! (?i - 1), ?xs ! (?j - 1))"
    using i j n by (simp add: select_strikes_def Let_def)
  have m1: "?xs ! (?i - 1) \<in> available_strikes df e ''put''" using il A nth_mem by blast
  have m2: "?xs ! (?j - 1) \<in> available_strikes df e ''put''" using jl A nth_mem by blast
  have g1: "?xs ! (?i - 1) \<le> T - p" using i by (rule searchsorted_right_le)
  have g2: "?xs ! (?j - 1) \<le> T" using j by (rule searchsorted_right_le)
  have l1: "\<forall>k\<in>available_strikes df e ''put''. k \<le> T - p \<longrightarrow> k \<le> ?xs ! (?i - 1)"
    using searchsorted_right_greatest [OF s] A by blast
  have l2: "\<forall>k\<in>available_strikes df e ''put''. k \<le> T \<longrightarrow> k \<le> ?xs ! (?j - 1)"
    using searchsorted_right_greatest [OF s] A by blast
  have o: "0 \<le> p \<longrightarrow> ?xs ! (?i - 1) \<le> ?xs ! (?j - 1)"
  proof
    assume "0 \<le> p"
    then have "?i \<le> ?j" by (intro searchsorted_right_mono) simp
    then have "?i - 1 \<le> ?j - 1" by simp
    then show "?xs ! (?i - 1) \<le> ?xs ! (?j - 1)" using sorted_nth_mono [OF s _ jl] by blast
  qed
  show ?thesis using sel m1 m2 g1 g2 l1 l2 o by blast
qed

text \<open>
  C3, witness: the scenario table, target 10000, precision 500 gives K2 = 10000 and
  K1 = 9500.
\<close>

theorem put_selector_greatest_witness:
  "select_strikes scenario_table ''put'' 10000 1735286400000 500 = Inr (9500, 10000)
   \<and> (\<exists>K1 K2. select_strikes scenario_table ''put'' 10000 1735286400000 500 = Inr (K1, K2)
         \<and> K2 \<le> 10000 \<and> K1 \<le> 10000 - 500 \<and> K1 \<le> K2)"
proof -
  have h1: "\<exists>k\<in>available_strikes scenario_table 1735286400000 ''put''. k \<le> 10000"
    by (simp add: scenario_defs)
  have h2: "\<exists>k\<in>available_strikes scenario_table 1735286400000 ''put''. k \<le> 10000 - 500"
    by (simp add: scenario_defs)
  show ?thesis
    using put_selector_greatest [OF h1 h2] sel_put by simp
qed

text \<open>
  C3, counterexample to the claim as stated: with the precision -1000 both indices are
  non-negative and the selector returns K1 = 11000 above K2 = 10000.
\<close>

theorem put_selector_negative_precision:
  "select_strikes scenario_table ''put'' 10000 1735286400000 (- 1000) = Inr (11000, 10000)
   \<and> \<not> (11000 :: rat) \<le> 10000"
  by (simp add: select_strikes_def Let_def scenario_put_strikes searchsorted_right_def)

subsection \<open>Missing strikes\<close>

lemma searchsorted_right_zero:
  "\<forall>k\<in>set xs. v < k \<Longrightarrow> searchsorted_right xs v = 0"
  unfolding searchsorted_right_def by (cases xs) auto

text \<open>
  C8. When no strike on offer is at or above target plus precision (call), or none is at
  or below target minus precision (put), the selection and the whole replication raise
  the "No suitable strikes" error; no dictionary is returned.
\<close>

theorem no_suitable_strikes_raised:
  assumes "(cls = ''call'' \<and> (\<forall>k\<in>available_strikes df e ''call''. k < T + p))
         \<or> (cls = ''put'' \<and> (\<forall>k\<in>available_strikes df e ''put''. T - p < k))"
  shows "select_strikes df cls T e p = Inl no_suitable_strikes
       \<and> replicate_binary_option df cls T e p = Inl no_suitable_strikes"
proof -
  have "select_strikes df cls T e p = Inl no_suitable_strikes"
    using assms
  proof
    assume c: "cls = ''call'' \<and> (\<forall>k\<in>available_strikes df e ''call''. k < T + p)"
    let ?xs = "sorted_unique_strikes (df_class (df_expiry df e) ''call'')"
    have "\<not> searchsorted_left ?xs (T + p) < length ?xs"
      using c by (auto simp: searchsorted_left_in_bounds set_strikes_available)
    then show ?thesis using c by (simp add: select_strikes_def Let_def)
  next
    assume c: "cls = ''put'' \<and> (\<forall>k\<in>available_strikes df e ''put''. T - p < k)"
    let ?xs = "sorted_unique_strikes (df_class (df_expiry df e) ''put'')"
    have "searchsorted_right ?xs (T - p) = 0"
      using c by (intro searchsorted_right_zero) (simp add: set_strikes_available)
    then show ?thesis using c by (simp add: select_strikes_def Let_def)
  qed
  then show ?thesis by (simp add: replicate_binary_option_def)
qed

text \<open>
  C8, witness: on the scenario table a call with target 10600 and a put with target 9400,
  precision 500, find no second strike.
\<close>

theorem no_suitable_strikes_raised_witness:
  "replicate_binary_option scenario_table ''call'' 10600 1735286400000 500 = Inl no_suitable_strikes
   \<and> replicate_binary_option scenario_table ''put'' 9400 1735286400000 500 = Inl no_suitable_strikes"
proof -
  have h1:
    "(''call'' = ''call''
        \<and> (\<forall>k\<in>available_strikes scenario_table 1735286400000 ''call''. k < 10600 + 500))
     \<or> (''call'' = ''put''
        \<and> (\<forall>k\<in>available_strikes scenario_table 1735286400000 ''put''. 10600 - 500 < k))"
    by (simp add: scenario_defs)
  have h2:
    "(''put'' = ''call''
        \<and> (\<forall>k\<in>available_strikes scenario_table 1735286400000 ''call''. k < 9400 + 500))
     \<or> (''put'' = ''put''
        \<and> (\<forall>k\<in>available_strikes scenario_table 1735286400000 ''put''. 9400 - 500 < k))"
    by (simp add: scenario_defs)
  show ?thesis
    using no_suitable_strikes_raised [OF h1] no_suitable_strikes_raised [OF h2] by simp
qed

subsection \<open>What the pattern captures can be read as a number\<close>

lemma all_digits_takeWhile: "list_all is_digit (takeWhile is_digit r)"
  by (induction r) auto

lemma float_of_str_digits:
  assumes "d \<noteq> []" "list_all is_digit d"
  shows "float_of_str d = Some (of_nat (nat_of_str d))"
proof -
  have t: "takeWhile is_digit d = d" using assms(2) by (simp add: list_all_iff)
  have r: "dropWhile is_digit d = []" using assms(2) by (simp add: list_all_iff)
  show ?thesis using assms(1) by (simp add: float_of_str_def Let_def t r)
qed

lemma float_of_str_point:
  assumes "d1 \<noteq> []" "list_all is_digit d1" "list_all is_digit d2"
  shows "float_of_str (d1 @ CHR ''.'' # d2) = Some (of_nat (nat_of_str d1) + frac_of_str d2)"
proof -
  have nd: "\<not> is_digit CHR ''.''" by (simp add: is_digit_def)
  have t: "takeWhile is_digit (d1 @ CHR ''.'' # d2) = d1"
    using assms(2) nd by (simp add: list_all_iff takeWhile_append)
  have d: "dropWhile is_digit (d1 @ CHR ''.'' # d2) = CHR ''.'' # d2"
    using assms(2) nd by (simp add: list_all_iff dropWhile_append)
  show ?thesis using assms t d by (simp add: float_of_str_def Let_def)
qed

lemma match_at_float:
  assumes "match_at s = Some (g, r)"
  shows "\<exists>q. float_of_str g = Some q"
proof -
  from assms obtain r0 where s: "s = CHR ''('' # r0"
    by (auto simp: match_at_def split: list.splits if_splits)
  let ?d1 = "takeWhile is_digit r0"
  have d1: "?d1 \<noteq> []" "list_all is_digit ?d1"
    using assms s by (auto simp: match_at_def Let_def all_digits_takeWhile split: list.splits if_splits)
  have "g = ?d1 \<or> (\<exists>r2. g = ?d1 @ CHR ''.'' # takeWhile is_digit r2)"
    using assms s
    by (auto simp: match_at_def Let_def split: list.splits if_splits
             simp del: dropWhile_eq_Nil_conv takeWhile_eq_Nil_iff)
  then show ?thesis
    using d1 float_of_str_digits [of ?d1] float_of_str_point [of ?d1] all_digits_takeWhile
    by auto
qed

lemma findall_float: "g \<in> set (findall s) \<Longrightarrow> \<exists>q. float_of_str g = Some q"
proof (induction s rule: findall.induct)
  case 1
  then show ?case by simp
next
  case (2 c cs)
  show ?case
  proof (cases "match_at (c # cs)")
    case None
    with 2 show ?thesis by simp
  next
    case (Some m)
    obtain g' r where m: "m = (g', r)" by (cases m)
    with 2 Some show ?thesis
      using match_at_float [of "c # cs" g' r] by auto
  qed
qed

lemma strikes_from_note_matched:
  assumes "2 \<le> length (findall (note_of rep))"
  shows "\<exists>K1 K2. strikes_from_note K rep = Inr (Fin K1, Fin K2)
           \<and> float_of_str (findall (note_of rep) ! 0) = Some K1
           \<and> float_of_str (findall (note_of rep) ! 1) = Some K2"
proof -
  let ?m = "findall (note_of rep)"
  have "?m ! 0 \<in> set ?m" "?m ! 1 \<in> set ?m" using assms by (auto intro!: nth_mem)
  then obtain K1 K2 where "float_of_str (?m ! 0) = Some K1" "float_of_str (?m ! 1) = Some K2"
    using findall_float by blast
  then show ?thesis using assms
    by (simp add: strikes_from_note_def Let_def note_of_def)
qed

lemma strikes_from_note_fallback:
  assumes "length (findall (note_of rep)) < 2"
  shows "strikes_from_note K rep =
           (case leg_weight ''option_1'' (option_1 rep) of
              Inl e \<Rightarrow> Inl e
            | Inr w1 \<Rightarrow> Inr (Fin K, np_add (Fin K) (np_div (Fin 1) w1)))"
  using assms
  by (simp add: strikes_from_note_def Let_def note_of_def leg_weight_def split: option.splits)

lemma strikes_from_note_complete:
  assumes "\<not> missing_weight (option_1 rep)"
  shows "\<exists>K1 K2. strikes_from_note K rep = Inr (K1, K2)"
proof (cases "2 \<le> length (findall (note_of rep))")
  case True
  then show ?thesis using strikes_from_note_matched [of rep K] by blast
next
  case False
  then show ?thesis using assms
    by (auto simp: strikes_from_note_fallback not_le leg_weight_def missing_weight_def
             split: option.splits)
qed

subsection \<open>Evaluating the scenarios\<close>

lemmas render_defs = format_note_def float_str_def positional_def str_nat.simps digit_char_def

lemma float_str_examples:
  "float_str 10000 = ''10000.0''" "float_str 10500 = ''10500.0''"
  "float_str 9500 = ''9500.0''" "float_str 11000 = ''11000.0''"
  by (simp_all add: render_defs)

lemma replicate_scenario_call:
  "replicate_binary_option scenario_table ''call'' 10000 1735286400000 500
     = Inr scenario_call_replication"
  unfolding replicate_binary_option_def sel_call
  by (simp add: build_replication_def iloc0_def
        scenario_defs format_note_def float_str_examples scenario_call_replication_def)

lemma replicate_scenario_put:
  "replicate_binary_option scenario_table ''put'' 10000 1735286400000 500
     = Inr scenario_put_replication"
  unfolding replicate_binary_option_def sel_put
  by (simp add: build_replication_def iloc0_def
        scenario_defs format_note_def float_str_examples scenario_put_replication_def)

lemma sel_gap: "select_strikes gap_table ''call'' 10000 1735286400000 500 = Inr (11000, 11000)"
  by (simp add: select_strikes_def Let_def gap_table_def instrument_row_def df_class_def
        df_expiry_def sorted_unique_strikes_def searchsorted_left_def)

lemmas scan_defs = match_at_def is_digit_def Let_def note_of_def

lemma findall_scenario_call:
  "findall (note_of scenario_call_replication) = [''10000.0'', ''10500.0'']"
  by (simp add: scenario_call_replication_def scan_defs)

lemma findall_scenario_put:
  "findall (note_of scenario_put_replication) = [''9500.0'', ''10000.0'']"
  by (simp add: scenario_put_replication_def scan_defs)

lemmas parse_defs = float_of_str_def nat_of_str_def digit_val_def is_digit_def Let_def

lemma float_of_str_examples:
  "float_of_str ''10000.0'' = Some 10000" "float_of_str ''10500.0'' = Some 10500"
  "float_of_str ''9500.0'' = Some 9500"
  by (simp_all add: parse_defs)

lemma strikes_scenario_call:
  "strikes_from_note 10000 scenario_call_replication = Inr (Fin 10000, Fin 10500)"
  using findall_scenario_call
  by (simp add: strikes_from_note_def note_of_def Let_def float_of_str_examples)

lemma strikes_scenario_put:
  "strikes_from_note 10000 scenario_put_replication = Inr (Fin 9500, Fin 10000)"
  using findall_scenario_put
  by (simp add: strikes_from_note_def note_of_def Let_def float_of_str_examples)

lemma findall_weightless:
  "findall (note_of weightless_replication) = [''500.0'']"
  by (simp add: weightless_replication_def scan_defs)

subsection \<open>Invalid option class and malformed dictionaries\<close>

text \<open>
  C9. For an option class that is neither 'call' nor 'put', the selection and the
  replication raise the "Option type must be 'call' or 'put'" error, and so does the payoff
  evaluation of any replication dictionary that has its note and both weights; no result
  is produced.
\<close>

theorem invalid_option_type_raised:
  assumes "cls \<noteq> ''call''" and "cls \<noteq> ''put''"
  shows "select_strikes df cls T e p = Inl invalid_option_type
       \<and> replicate_binary_option df cls T e p = Inl invalid_option_type
       \<and> (complete_replication rep \<longrightarrow>
            plot_binary_replication_payoff K cls rep pr = Inl invalid_option_type)"
proof -
  have s: "select_strikes df cls T e p = Inl invalid_option_type"
    using assms by (simp add: select_strikes_def Let_def)
  have r: "replicate_binary_option df cls T e p = Inl invalid_option_type"
    using s by (simp add: replicate_binary_option_def)
  have "plot_binary_replication_payoff K cls rep pr = Inl invalid_option_type"
    if "complete_replication rep"
  proof -
    from that obtain K1 K2 where "strikes_from_note K rep = Inr (K1, K2)"
      using strikes_from_note_complete [of rep K] by (auto simp: complete_replication_def)
    then show ?thesis using assms
      by (simp add: plot_binary_replication_payoff_def Let_def)
  qed
  with s r show ?thesis by simp
qed

text \<open>C9, witness: the class 'straddle' on the scenario table and its call replication.\<close>

theorem invalid_option_type_raised_witness:
  "replicate_binary_option scenario_table ''straddle'' 10000 1735286400000 500
     = Inl invalid_option_type
   \<and> plot_binary_replication_payoff 10000 ''straddle'' scenario_call_replication None
     = Inl invalid_option_type"
proof -
  have h1: "''straddle'' \<noteq> ''call''" by simp
  have h2: "''straddle'' \<noteq> ''put''" by simp
  have c: "complete_replication scenario_call_replication"
    by (simp add: complete_replication_def missing_weight_def scenario_call_replication_def)
  show ?thesis
    using invalid_option_type_raised [OF h1 h2, where df = scenario_table and T = 10000
        and e = 1735286400000 and p = 500 and rep = scenario_call_replication and K = 10000
        and pr = None] c
    by simp
qed

text \<open>
  C10. A dictionary whose note yields fewer than two groups and whose first leg is
  absent or has no weight makes the payoff evaluation raise \<^verbatim>\<open>KeyError\<close>, whatever the
  class; with a valid class, so does any dictionary with a weight missing in either leg.
  No curve is produced.
\<close>

theorem malformed_replication_raised:
  "(length (findall (note_of rep)) < 2 \<and> missing_weight (option_1 rep)
      \<longrightarrow> (\<exists>k. plot_binary_replication_payoff K cls rep pr = Inl (KeyError k)))
   \<and> ((cls = ''call'' \<or> cls = ''put'')
        \<and> (missing_weight (option_1 rep) \<or> missing_weight (option_2 rep))
      \<longrightarrow> (\<exists>k. plot_binary_replication_payoff K cls rep pr = Inl (KeyError k)))"
proof (intro conjI impI)
  assume a: "length (findall (note_of rep)) < 2 \<and> missing_weight (option_1 rep)"
  then have "\<exists>k. strikes_from_note K rep = Inl (KeyError k)"
    by (auto simp: strikes_from_note_fallback leg_weight_def missing_weight_def
             split: option.splits)
  then show "\<exists>k. plot_binary_replication_payoff K cls rep pr = Inl (KeyError k)"
    by (auto simp: plot_binary_replication_payoff_def Let_def)
next
  assume a: "(cls = ''call'' \<or> cls = ''put'')
        \<and> (missing_weight (option_1 rep) \<or> missing_weight (option_2 rep))"
  show "\<exists>k. plot_binary_replication_payoff K cls rep pr = Inl (KeyError k)"
  proof (cases "missing_weight (option_1 rep)")
    case True
    then have l1: "\<exists>k. leg_weight ''option_1'' (option_1 rep) = Inl (KeyError k)"
      by (auto simp: leg_weight_def missing_weight_def split: option.splits)
    show ?thesis
    proof (cases "2 \<le> length (findall (note_of rep))")
      case t: True
      then obtain K1 K2 where "strikes_from_note K rep = Inr (Fin K1, Fin K2)"
        using strikes_from_note_matched [of rep K] by blast
      then show ?thesis using a l1
        by (auto simp: plot_binary_replication_payoff_def Let_def)
    next
      case False
      then have "\<exists>k. strikes_from_note K rep = Inl (KeyError k)"
        using l1 by (auto simp: strikes_from_note_fallback not_le)
      then show ?thesis
        by (auto simp: plot_binary_replication_payoff_def Let_def)
    qed
  next
    case False
    then obtain w1 where w1: "leg_weight ''option_1'' (option_1 rep) = Inr w1"
      by (auto simp: leg_weight_def missing_weight_def split: option.splits)
    from False a have "missing_weight (option_2 rep)" by simp
    then have l2: "\<exists>k. leg_weight ''option_2'' (option_2 rep) = Inl (KeyError k)"
      by (auto simp: leg_weight_def missing_weight_def split: option.splits)
    from False obtain K1 K2 where "strikes_from_note K rep = Inr (K1, K2)"
      using strikes_from_note_complete [of rep K] by blast
    then show ?thesis using a w1 l2
      by (auto simp: plot_binary_replication_payoff_def Let_def)
  qed
qed

text \<open>C10, witness: the dictionary without weights raises \<^verbatim>\<open>KeyError('weight')\<close>.\<close>

theorem malformed_replication_raised_witness:
  "plot_binary_replication_payoff 10000 ''call'' weightless_replication None
     = Inl (KeyError ''weight'')"
proof -
  have h: "length (findall (note_of weightless_replication)) < 2
           \<and> missing_weight (option_1 weightless_replication)"
    by (simp add: findall_weightless) (simp add: missing_weight_def weightless_replication_def)
  have "\<exists>k. plot_binary_replication_payoff 10000 ''call'' weightless_replication None
               = Inl (KeyError k)"
    using malformed_replication_raised [where rep = weightless_replication and K = 10000
        and cls = "''call''" and pr = None] h
    by blast
  moreover have "strikes_from_note 10000 weightless_replication = Inl (KeyError ''weight'')"
    using h by (simp add: strikes_from_note_fallback leg_weight_def weightless_replication_def)
  ultimately show ?thesis
    by (simp add: plot_binary_replication_payoff_def)
qed

subsection \<open>Weights and total cost\<close>

lemma select_strikes_members:
  assumes "select_strikes df cls T e p = Inr (K1, K2)"
  shows "(cls = ''call'' \<or> cls = ''put'')
         \<and> K1 \<in> available_strikes df e cls \<and> K2 \<in> available_strikes df e cls"
proof -
  have c: "cls = ''call'' \<or> cls = ''put''"
    using assms by (auto simp: select_strikes_def Let_def split: if_splits)
  let ?xs = "sorted_unique_strikes (df_class (df_expiry df e) cls)"
  have "\<exists>i j. i < length ?xs \<and> j < length ?xs \<and> K1 = ?xs ! i \<and> K2 = ?xs ! j"
  proof (cases "cls = ''call''")
    case True
    with assms show ?thesis
      by (auto simp: select_strikes_def Let_def not_le split: if_splits)
  next
    case False
    with c have p: "cls = ''put''" by simp
    let ?j = "searchsorted_right ?xs T" and ?i = "searchsorted_right ?xs (T - p)"
    from assms p have pos: "0 < ?i" "0 < ?j"
      and k: "K1 = ?xs ! nat (int ?i - 1)" "K2 = ?xs ! nat (int ?j - 1)"
      by (auto simp: select_strikes_def Let_def split: if_splits)
    have n: "nat (int ?j - 1) = ?j - 1" "nat (int ?i - 1) = ?i - 1" by simp_all
    show ?thesis
      using pos k n searchsorted_right_pred_less [of ?xs T]
        searchsorted_right_pred_less [of ?xs "T - p"]
      by auto
  qed
  then show ?thesis
    using c set_strikes_available [of df e cls] nth_mem by metis
qed

lemma iloc0_first_row:
  assumes "k \<in> strike ` set df"
  shows "iloc0 (filter (\<lambda>r. strike r = k) df) = Inr (first_row df k)"
proof -
  have "filter (\<lambda>r. strike r = k) df \<noteq> []"
    using assms by (auto simp: filter_empty_conv)
  then show ?thesis
    by (cases "filter (\<lambda>r. strike r = k) df") (simp_all add: iloc0_def first_row_def)
qed

lemma build_replication_rows:
  assumes "K1 \<in> strike ` set df" "K2 \<in> strike ` set df"
  shows "build_replication df cls fn K1 K2 =
     Inr \<lparr>option_1 = Some \<lparr>instrument = instrument_name (first_row df K1),
                              weight = Some (np_div (Fin 1) (Fin (K2 - K1))),
                              cost = last_price (first_row df K1)\<rparr>,
           option_2 = Some \<lparr>instrument = instrument_name (first_row df K2),
                              weight = Some (np_div (Fin (- 1)) (Fin (K2 - K1))),
                              cost = last_price (first_row df K2)\<rparr>,
           note_text = Some (format_note cls fn K1 K2),
           total_cost =
             np_add (np_mul (np_div (Fin 1) (Fin (K2 - K1))) (Fin (last_price (first_row df K1))))
                    (np_mul (np_div (Fin (- 1)) (Fin (K2 - K1)))
                            (Fin (last_price (first_row df K2))))\<rparr>"
  using assms by (simp add: build_replication_def iloc0_first_row Let_def)

lemma replicate_via_build:
  assumes "select_strikes df cls T e p = Inr (K1, K2)"
  shows "replicate_binary_option df cls T e p =
           build_replication (df_class (df_expiry df e) cls) cls
             (if cls = ''call'' then ''C'' else ''P'') K1 K2"
  using assms select_strikes_members [OF assms]
  by (auto simp: replicate_binary_option_def Let_def)

text \<open>
  C5. A successful replication selected two strikes K1 and K2 and returns two legs
  priced at the last price of the first row with that strike; when K1 and K2 differ the
  weights are 1/(K2 - K1) and -1/(K2 - K1), they sum to zero, and the total cost is
  weight_1 * price_1 + weight_2 * price_2.
\<close>

theorem weights_and_total_cost:
  assumes "replicate_binary_option df cls T e p = Inr r"
  shows "\<exists>K1 K2 leg1 leg2.
           select_strikes df cls T e p = Inr (K1, K2)
         \<and> option_1 r = Some leg1 \<and> option_2 r = Some leg2
         \<and> cost leg1 = last_price (first_row (df_class (df_expiry df e) cls) K1)
         \<and> cost leg2 = last_price (first_row (df_class (df_expiry df e) cls) K2)
         \<and> (K1 \<noteq> K2 \<longrightarrow>
              weight leg1 = Some (Fin (1 / (K2 - K1)))
            \<and> weight leg2 = Some (Fin (- 1 / (K2 - K1)))
            \<and> np_add (Fin (1 / (K2 - K1))) (Fin (- 1 / (K2 - K1))) = Fin 0
            \<and> total_cost r = Fin (1 / (K2 - K1) * cost leg1 + (- 1 / (K2 - K1)) * cost leg2))"
proof -
  from assms obtain K1 K2 where sel: "select_strikes df cls T e p = Inr (K1, K2)"
    by (cases "select_strikes df cls T e p") (auto simp: replicate_binary_option_def)
  let ?dfc = "df_class (df_expiry df e) cls"
  have m: "K1 \<in> strike ` set ?dfc" "K2 \<in> strike ` set ?dfc"
    using select_strikes_members [OF sel] by (simp_all add: available_strikes_def)
  have r: "r = \<lparr>option_1 = Some \<lparr>instrument = instrument_name (first_row ?dfc K1),
                              weight = Some (np_div (Fin 1) (Fin (K2 - K1))),
                              cost = last_price (first_row ?dfc K1)\<rparr>,
           option_2 = Some \<lparr>instrument = instrument_name (first_row ?dfc K2),
                              weight = Some (np_div (Fin (- 1)) (Fin (K2 - K1))),
                              cost = last_price (first_row ?dfc K2)\<rparr>,
           note_text = Some (format_note cls (if cls = ''call'' then ''C'' else ''P'') K1 K2),
           total_cost =
             np_add (np_mul (np_div (Fin 1) (Fin (K2 - K1))) (Fin (last_price (first_row ?dfc K1))))
                    (np_mul (np_div (Fin (- 1)) (Fin (K2 - K1)))
                            (Fin (last_price (first_row ?dfc K2))))\<rparr>"
    using assms replicate_via_build [OF sel] build_replication_rows [OF m] by simp
  show ?thesis
    apply (rule exI [of _ K1], rule exI [of _ K2])
    apply (subst r, subst r, subst r)
    apply (simp add: sel)
    done
qed

text \<open>C5, witness: the call scenario, with the weights 1/500 and -1/500.\<close>

theorem weights_and_total_cost_witness:
  "select_strikes scenario_table ''call'' 10000 1735286400000 500 = Inr (10000, 10500)
   \<and> (\<exists>leg1 leg2. option_1 scenario_call_replication = Some leg1
        \<and> option_2 scenario_call_replication = Some leg2
        \<and> weight leg1 = Some (Fin (1 / 500)) \<and> weight leg2 = Some (Fin (- 1 / 500))
        \<and> total_cost scenario_call_replication
            = Fin (1 / 500 * cost leg1 + (- 1 / 500) * cost leg2))"
  using weights_and_total_cost [OF replicate_scenario_call] sel_call
  by auto

text \<open>
  C4, the failing input. On the table with calls at 9000 and 11000, the target 10000 and
  the precision 500 select K1 = K2 = 11000: no error is raised, the width is zero, and
  the weights are infinite and the total cost is not a number.
\<close>

theorem zero_width_spread:
  "select_strikes gap_table ''call'' 10000 1735286400000 500 = Inr (11000, 11000)
   \<and> replicate_binary_option gap_table ''call'' 10000 1735286400000 500 = Inr gap_replication"
  unfolding replicate_binary_option_def sel_gap
  by (simp add: build_replication_def iloc0_def
        gap_table_def instrument_row_def df_class_def df_expiry_def
        format_note_def float_str_examples gap_replication_def)

subsection \<open>The payoff curves\<close>

lemma map2_same: "map2 f (map g xs) (map h xs) = map (\<lambda>x. f (g x) (h x)) xs"
  by (induction xs) auto

lemma linspace_nth:
  "i < n \<Longrightarrow> linspace a b n ! i = a + of_nat i * ((b - a) / of_nat (n - 1))"
  by (simp add: linspace_def)

lemma length_linspace: "length (linspace a b n) = n"
  by (simp add: linspace_def)

lemma plot_finite_weights:
  assumes cls: "cls = ''call'' \<or> cls = ''put''"
    and k: "strikes_from_note K rep = Inr (Fin K1, Fin K2)"
    and l1: "option_1 rep = Some leg1" and w1: "weight leg1 = Some (Fin w1)"
    and l2: "option_2 rep = Some leg2" and w2: "weight leg2 = Some (Fin w2)"
  shows "\<exists>P. plot_binary_replication_payoff K cls rep pr =
             Inr \<lparr>prices = P,
                  ideal_payoff =
                    map (\<lambda>S. if (if cls = ''call'' then K \<le> S else S \<le> K) then 1 else 0) P,
                  replicated_payoff =
                    map (\<lambda>S. Fin (if cls = ''call''
                                   then w1 * max (S - K1) 0 + w2 * max (S - K2) 0
                                   else w1 * max (K1 - S) 0 + w2 * max (K2 - S) 0)) P\<rparr>
           \<and> (case pr of
                 Some p \<Rightarrow> P = p
               | None \<Rightarrow> length P = 500 \<and> P ! 0 = K / 2 \<and> P ! 499 = 3 * K / 2
                         \<and> (\<forall>i<500. P ! i = K / 2 + of_nat i * (K / 499)))"
proof -
  let ?P = "case pr of None \<Rightarrow> linspace (K * (1 / 2)) (K * (3 / 2)) 500 | Some p \<Rightarrow> p"
  have lw: "leg_weight ''option_1'' (option_1 rep) = Inr (Fin w1)"
    "leg_weight ''option_2'' (option_2 rep) = Inr (Fin w2)"
    using l1 w1 l2 w2 by (simp_all add: leg_weight_def)
  have grid: "case pr of
                 Some p \<Rightarrow> ?P = p
               | None \<Rightarrow> length ?P = 500 \<and> ?P ! 0 = K / 2 \<and> ?P ! 499 = 3 * K / 2
                         \<and> (\<forall>i<500. ?P ! i = K / 2 + of_nat i * (K / 499))"
    by (cases pr) (simp_all add: length_linspace linspace_nth)
  have curve: "plot_binary_replication_payoff K cls rep pr =
             Inr \<lparr>prices = ?P,
                  ideal_payoff =
                    map (\<lambda>S. if (if cls = ''call'' then K \<le> S else S \<le> K) then 1 else 0) ?P,
                  replicated_payoff =
                    map (\<lambda>S. Fin (if cls = ''call''
                                   then w1 * max (S - K1) 0 + w2 * max (S - K2) 0
                                   else w1 * max (K1 - S) 0 + w2 * max (K2 - S) 0)) ?P\<rparr>"
    using cls
  proof
    assume "cls = ''call''"
    then show ?thesis
      by (simp add: plot_binary_replication_payoff_def Let_def k lw map2_same call_payoff_def
            np_sub_def)
  next
    assume "cls = ''put''"
    then show ?thesis
      by (simp add: plot_binary_replication_payoff_def Let_def k lw map2_same put_payoff_def
            np_sub_def)
  qed
  show ?thesis using curve grid by blast
qed

text \<open>
  C6. For a class 'call' or 'put', strikes K1 and K2 read from the dictionary and finite
  weights w1 and w2, the evaluation yields three sequences over the same prices: the
  prices are the given range or, by default, 500 evenly spaced prices from 0.5 * strike to
  1.5 * strike; the ideal payoff is 1 where price >= strike (call) or price <= strike
  (put) and 0 elsewhere; the replicated payoff is w1 * max(price - K1, 0) + w2 *
  max(price - K2, 0) for a call and w1 * max(K1 - price, 0) + w2 * max(K2 - price, 0) for
  a put.
\<close>

theorem payoff_curves:
  assumes cls: "cls = ''call'' \<or> cls = ''put''"
    and k: "strikes_from_note K rep = Inr (Fin K1, Fin K2)"
    and l1: "option_1 rep = Some leg1" and w1: "weight leg1 = Some (Fin w1)"
    and l2: "option_2 rep = Some leg2" and w2: "weight leg2 = Some (Fin w2)"
  shows "\<exists>P. plot_binary_replication_payoff K cls rep pr =
             Inr \<lparr>prices = P,
                  ideal_payoff =
                    map (\<lambda>S. if (if cls = ''call'' then K \<le> S else S \<le> K) then 1 else 0) P,
                  replicated_payoff =
                    map (\<lambda>S. Fin (if cls = ''call''
                                   then w1 * max (S - K1) 0 + w2 * max (S - K2) 0
                                   else w1 * max (K1 - S) 0 + w2 * max (K2 - S) 0)) P\<rparr>
           \<and> (case pr of
                 Some p \<Rightarrow> P = p
               | None \<Rightarrow> length P = 500 \<and> P ! 0 = K / 2 \<and> P ! 499 = 3 * K / 2
                         \<and> (\<forall>i<500. P ! i = K / 2 + of_nat i * (K / 499)))"
  using assms by (rule plot_finite_weights)

text \<open>
  C6, witness: strike 10000, class call, K1 = 10000, K2 = 10500, weights 1/500 and -1/500;
  at the price 10250 the replicated payoff is 1/2 and the ideal payoff is 1; the default
  range has 500 prices from 5000 to 15000.
\<close>

theorem payoff_curves_witness:
  "plot_binary_replication_payoff 10000 ''call'' scenario_call_replication (Some [10250])
     = Inr \<lparr>prices = [10250], ideal_payoff = [1], replicated_payoff = [Fin (1 / 2)]\<rparr>
   \<and> (\<exists>P I R. plot_binary_replication_payoff 10000 ''call'' scenario_call_replication None
         = Inr \<lparr>prices = P, ideal_payoff = I, replicated_payoff = R\<rparr>
        \<and> length P = 500 \<and> P ! 0 = 5000 \<and> P ! 499 = 15000)"
proof -
  have c: "''call'' = ''call'' \<or> ''call'' = ''put''" by simp
  have l1: "option_1 scenario_call_replication
              = Some \<lparr>instrument = ''BTC-27DEC24-10000-C'', weight = Some (Fin (1 / 500)),
                      cost = 9 / 100\<rparr>"
    and l2: "option_2 scenario_call_replication
              = Some \<lparr>instrument = ''BTC-27DEC24-10500-C'', weight = Some (Fin (- 1 / 500)),
                      cost = 6 / 100\<rparr>"
    by (simp_all add: scenario_call_replication_def)
  have w1: "weight \<lparr>instrument = ''BTC-27DEC24-10000-C'', weight = Some (Fin (1 / 500)),
                      cost = 9 / 100\<rparr> = Some (Fin (1 / 500))"
    and w2: "weight \<lparr>instrument = ''BTC-27DEC24-10500-C'', weight = Some (Fin (- 1 / 500)),
                      cost = 6 / 100\<rparr> = Some (Fin (- 1 / 500))"
    by simp_all
  note t = payoff_curves [OF c strikes_scenario_call l1 w1 l2 w2]
  show ?thesis
    using t [of "Some [10250]"] t [of None] by auto
qed

subsection \<open>The strikes through the note\<close>

lemma digit_char_digit: "d < 10 \<Longrightarrow> is_digit (digit_char d) \<and> digit_val (digit_char d) = d"
proof -
  assume "d < 10"
  then have "d \<in> {0, 1, 2, 3, 4, 5, 6, 7, 8, 9}" by auto
  then show ?thesis
    by (auto simp: digit_char_def is_digit_def digit_val_def)
qed

lemma str_nat_digits: "str_nat n \<noteq> [] \<and> list_all is_digit (str_nat n)"
proof (induction n rule: str_nat.induct)
  case (1 n)
  show ?case
  proof (cases "n < 10")
    case True
    then show ?thesis using digit_char_digit [of n] by (simp add: str_nat.simps [of n])
  next
    case False
    then show ?thesis
      using 1 digit_char_digit [of "n mod 10"] by (simp add: str_nat.simps [of n])
  qed
qed

lemma nat_of_str_snoc: "nat_of_str (xs @ [c]) = 10 * nat_of_str xs + digit_val c"
  by (simp add: nat_of_str_def)

lemma nat_of_str_str_nat: "nat_of_str (str_nat n) = n"
proof (induction n rule: str_nat.induct)
  case (1 n)
  show ?case
  proof (cases "n < 10")
    case True
    then show ?thesis
      using digit_char_digit [of n] by (simp add: str_nat.simps [of n] nat_of_str_def)
  next
    case False
    then show ?thesis
      using 1 digit_char_digit [of "n mod 10"]
      by (simp add: str_nat.simps [of n] nat_of_str_snoc)
  qed
qed

lemma next_digit:
  fixes f :: rat
  assumes "0 \<le> f" "f < 1"
  shows "nat \<lfloor>f * 10\<rfloor> < 10" "0 \<le> f * 10 - of_int \<lfloor>f * 10\<rfloor>" "f * 10 - of_int \<lfloor>f * 10\<rfloor> < 1"
    "of_nat (nat \<lfloor>f * 10\<rfloor>) = (of_int \<lfloor>f * 10\<rfloor> :: rat)"
proof -
  have "0 \<le> \<lfloor>f * 10\<rfloor>" using assms by simp
  moreover have "\<lfloor>f * 10\<rfloor> < 10" using assms by (simp add: floor_less_iff)
  ultimately show "nat \<lfloor>f * 10\<rfloor> < 10" "of_nat (nat \<lfloor>f * 10\<rfloor>) = (of_int \<lfloor>f * 10\<rfloor> :: rat)"
    by linarith+
  show "0 \<le> f * 10 - of_int \<lfloor>f * 10\<rfloor>" "f * 10 - of_int \<lfloor>f * 10\<rfloor> < 1"
    by linarith+
qed

lemma frac_digits_digits:
  "0 \<le> f \<Longrightarrow> f < 1 \<Longrightarrow> list_all is_digit (frac_digits n f)"
proof (induction n arbitrary: f)
  case 0
  then show ?case by simp
next
  case (Suc n)
  show ?case
    using next_digit [OF Suc.prems] Suc.IH [of "f * 10 - of_int \<lfloor>f * 10\<rfloor>"]
      digit_char_digit [of "nat \<lfloor>f * 10\<rfloor>"]
    by simp
qed

lemma frac_of_str_frac_digits:
  "0 \<le> f \<Longrightarrow> f < 1 \<Longrightarrow> f * 10 ^ n \<in> \<int> \<Longrightarrow> frac_of_str (frac_digits n f) = f"
proof (induction n arbitrary: f)
  case 0
  then have "f \<in> \<int>" by simp
  then obtain z where "f = of_int z" by (auto elim: Ints_cases)
  with 0 have "f = 0" by simp
  then show ?case by simp
next
  case (Suc n)
  let ?g = "f * 10 - of_int \<lfloor>f * 10\<rfloor>"
  have "?g * 10 ^ n = f * 10 ^ Suc n - of_int (\<lfloor>f * 10\<rfloor> * 10 ^ n)"
    by (simp add: algebra_simps)
  then have "?g * 10 ^ n \<in> \<int>"
    using Suc.prems(3) by (simp del: power_Suc of_int_mult of_int_power)
  then have ih: "frac_of_str (frac_digits n ?g) = ?g"
    using next_digit [OF Suc.prems(1,2)] Suc.IH [of ?g] by simp
  show ?case
    using next_digit [OF Suc.prems(1,2)] digit_char_digit [of "nat \<lfloor>f * 10\<rfloor>"] ih
    by simp
qed

lemma float_str_plain:
  assumes "plain_decimal K"
  shows "\<exists>d e. float_str K = d @ CHR ''.'' # e \<and> d \<noteq> [] \<and> list_all is_digit d
           \<and> list_all is_digit e \<and> float_of_str (d @ CHR ''.'' # e) = Some K"
proof -
  let ?f = "K - of_int \<lfloor>K\<rfloor>"
  let ?d = "str_nat (nat \<lfloor>K\<rfloor>)"
  let ?e = "if ?f = 0 then ''0'' else frac_digits 20 ?f"
  from assms have k: "0 \<le> K" "K < 10 ^ 16" "K = 0 \<or> 1 / 10 ^ 4 \<le> K"
    and i: "K * 10 ^ 20 \<in> \<int>"
    by (auto simp: plain_decimal_def intro: Ints_of_int [of "\<lfloor>K * 10 ^ 20\<rfloor>", where ?'a = rat])
  have f: "0 \<le> ?f" "?f < 1" by linarith+
  have s: "float_str K = ?d @ CHR ''.'' # ?e"
    using k by (auto simp: float_str_def positional_def Let_def)
  have d: "?d \<noteq> []" "list_all is_digit ?d" using str_nat_digits by simp_all
  have z: "is_digit CHR ''0''" "digit_val CHR ''0'' = 0"
    by (simp_all add: is_digit_def digit_val_def)
  have e: "list_all is_digit ?e"
    using frac_digits_digits [OF f] z by simp
  have "?f * 10 ^ 20 = K * 10 ^ 20 - of_int (\<lfloor>K\<rfloor> * 10 ^ 20)"
    by (simp add: algebra_simps)
  then have "?f * 10 ^ 20 \<in> \<int>"
    using i by (simp del: of_int_mult of_int_power)
  then have fe: "frac_of_str ?e = ?f"
    using frac_of_str_frac_digits [OF f, of 20] z by simp
  have "of_nat (nat \<lfloor>K\<rfloor>) = (of_int \<lfloor>K\<rfloor> :: rat)" using k(1) by simp
  then have "float_of_str (?d @ CHR ''.'' # ?e) = Some K"
    using float_of_str_point [OF d e] fe by (simp add: nat_of_str_str_nat)
  with s d e show ?thesis by blast
qed

lemma match_at_plain:
  assumes "d \<noteq> []" "list_all is_digit d" "list_all is_digit e"
  shows "match_at (CHR ''('' # d @ CHR ''.'' # e @ CHR '')'' # rest)
           = Some (d @ CHR ''.'' # e, rest)"
proof -
  have n: "\<not> is_digit CHR ''.''" "\<not> is_digit CHR '')''" by (simp_all add: is_digit_def)
  have t1: "takeWhile is_digit (d @ CHR ''.'' # e @ CHR '')'' # rest) = d"
    using assms(2) n by (simp add: list_all_iff takeWhile_append)
  have d1: "dropWhile is_digit (d @ CHR ''.'' # e @ CHR '')'' # rest)
              = CHR ''.'' # e @ CHR '')'' # rest"
    using assms(2) n by (simp add: list_all_iff dropWhile_append)
  have t2: "takeWhile is_digit (e @ CHR '')'' # rest) = e"
    using assms(3) n by (simp add: list_all_iff takeWhile_append)
  have d2: "dropWhile is_digit (e @ CHR '')'' # rest) = CHR '')'' # rest"
    using assms(3) n by (simp add: list_all_iff dropWhile_append)
  show ?thesis
    using assms(1) by (simp add: match_at_def Let_def t1 d1 t2 d2)
qed

lemma findall_skip: "c \<noteq> CHR ''('' \<Longrightarrow> findall (c # cs) = findall cs"
  by (simp add: match_at_def)

lemma findall_skip_open: "\<not> is_digit c \<Longrightarrow> findall (CHR ''('' # c # cs) = findall (c # cs)"
  by (simp add: match_at_def)

lemma findall_match:
  assumes "d \<noteq> []" "list_all is_digit d" "list_all is_digit e"
  shows "findall (CHR ''('' # d @ CHR ''.'' # e @ CHR '')'' # rest)
           = (d @ CHR ''.'' # e) # findall rest"
  using match_at_plain [OF assms] by simp

lemma findall_format_note:
  assumes "d1 \<noteq> []" "list_all is_digit d1" "list_all is_digit e1"
    and "d2 \<noteq> []" "list_all is_digit d2" "list_all is_digit e2"
    and "float_str K1 = d1 @ CHR ''.'' # e1" "float_str K2 = d2 @ CHR ''.'' # e2"
    and "(cls, fn) = (''call'', ''C'') \<or> (cls, fn) = (''put'', ''P'')"
  shows "\<exists>rest. findall (format_note cls fn K1 K2) = float_str K1 # float_str K2 # rest"
  using assms
  by (auto simp: format_note_def findall_skip findall_skip_open findall_match is_digit_def
           simp del: findall.simps)

lemma note_round_trip:
  assumes rep: "replicate_binary_option df cls T e p = Inr r"
    and sel: "select_strikes df cls T e p = Inr (K1, K2)"
    and p1: "plain_decimal K1" and p2: "plain_decimal K2"
  shows "strikes_from_note S r = Inr (Fin K1, Fin K2)"
proof -
  let ?dfc = "df_class (df_expiry df e) cls"
  let ?fn = "if cls = ''call'' then ''C'' else ''P''"
  have c: "cls = ''call'' \<or> cls = ''put''"
    and m: "K1 \<in> strike ` set ?dfc" "K2 \<in> strike ` set ?dfc"
    using select_strikes_members [OF sel] by (simp_all add: available_strikes_def)
  have "Inr r = build_replication ?dfc cls ?fn K1 K2"
    using rep replicate_via_build [OF sel] by simp
  then have n: "note_of r = format_note cls ?fn K1 K2"
    by (simp add: build_replication_rows [OF m] note_of_def)
  obtain d1 e1 where s1: "float_str K1 = d1 @ CHR ''.'' # e1" "d1 \<noteq> []"
      "list_all is_digit d1" "list_all is_digit e1"
    and f1: "float_of_str (float_str K1) = Some K1"
    using float_str_plain [OF p1] by auto
  obtain d2 e2 where s2: "float_str K2 = d2 @ CHR ''.'' # e2" "d2 \<noteq> []"
      "list_all is_digit d2" "list_all is_digit e2"
    and f2: "float_of_str (float_str K2) = Some K2"
    using float_str_plain [OF p2] by auto
  have "(cls, ?fn) = (''call'', ''C'') \<or> (cls, ?fn) = (''put'', ''P'')"
    using c by auto
  then obtain rest where "findall (note_of r) = float_str K1 # float_str K2 # rest"
    using findall_format_note [OF s1(2,3,4) s2(2,3,4) s1(1) s2(1)] n by metis
  then show ?thesis
    by (simp add: strikes_from_note_def Let_def f1 f2)
qed

text \<open>
  C7 (as amended). For every successful replication whose two selected strikes print in
  positional notation without a sign, the strikes that the payoff evaluation reads from
  the note are the strikes K1 and K2 that the selection chose, whatever strike the
  evaluation is given.
\<close>

theorem strikes_round_trip:
  assumes rep: "replicate_binary_option df cls T e p = Inr r"
    and sel: "select_strikes df cls T e p = Inr (K1, K2)"
    and p1: "plain_decimal K1" and p2: "plain_decimal K2"
  shows "strikes_from_note S r = Inr (Fin K1, Fin K2)"
  using assms by (rule note_round_trip)

text \<open>C7, witness: the call scenario, K1 = 10000 and K2 = 10500.\<close>

theorem strikes_round_trip_witness:
  "plain_decimal 10000 \<and> plain_decimal 10500
   \<and> strikes_from_note 10000 scenario_call_replication = Inr (Fin 10000, Fin 10500)"
proof -
  have p1: "plain_decimal 10000" and p2: "plain_decimal 10500"
    by (simp_all add: plain_decimal_def)
  show ?thesis
    using strikes_round_trip [OF replicate_scenario_call sel_call p1 p2, of 10000] p1 p2
    by simp
qed

lemma sel_negative:
  "select_strikes negative_strike_table ''call'' (- 1200) 1735286400000 500 = Inr (- 1000, 500)"
  by (simp add: select_strikes_def Let_def negative_strike_table_def instrument_row_def
        df_class_def df_expiry_def sorted_unique_strikes_def searchsorted_left_def)

lemma float_str_negative:
  "float_str (- 1000) = ''-1000.0''" "float_str 500 = ''500.0''"
  by (simp_all add: render_defs)

lemma replicate_negative:
  "replicate_binary_option negative_strike_table ''call'' (- 1200) 1735286400000 500
     = Inr negative_strike_replication"
  unfolding replicate_binary_option_def sel_negative
  by (simp add: build_replication_def iloc0_def negative_strike_table_def instrument_row_def
        df_class_def df_expiry_def format_note_def float_str_negative
        negative_strike_replication_def)

lemma findall_negative:
  "findall (note_of negative_strike_replication) = [''500.0'']"
  by (simp add: negative_strike_replication_def scan_defs)

text \<open>
  C7, counterexample to the claim as stated. With calls at -1000 and 500, the target
  -1200 and the precision 500 the replication succeeds with K1 = -1000 and K2 = 500. The
  note prints K1 as -1000.0, which the pattern does not match, so a single group is
  found and the evaluation falls back to K1 = -1200 (its strike argument) and
  K2 = -1200 + 1/weight_1 = 300.
\<close>

theorem negative_strike_not_read_back:
  "replicate_binary_option negative_strike_table ''call'' (- 1200) 1735286400000 500
     = Inr negative_strike_replication
   \<and> select_strikes negative_strike_table ''call'' (- 1200) 1735286400000 500
     = Inr (- 1000, 500)
   \<and> strikes_from_note (- 1200) negative_strike_replication = Inr (Fin (- 1200), Fin 300)
   \<and> (Fin (- 1200), Fin 300) \<noteq> (Fin (- 1000), Fin 500)"
  unfolding replicate_negative sel_negative
  using findall_negative
  by (simp add: strikes_from_note_def Let_def negative_strike_replication_def)

subsection \<open>The replicated payoff outside the spread\<close>

text \<open>
  With K1 below K2 and both strikes read back from the note, the replicated payoff of a
  call is 1 at every price from K2 on and 0 at every price up to K1. The put branch uses
  the same weights on the same legs, so the replicated payoff of a put is -1 at every
  price up to K1 and 0 at every price from K2 on.
\<close>

lemma spread_combination:
  fixes a b d :: rat
  shows "1 / d * a + (- 1 / d) * b = (a - b) / d"
  by (simp add: diff_divide_distrib)

lemma call_spread_outside:
  fixes K1 K2 S :: rat
  assumes "K1 < K2"
  shows "K2 \<le> S \<Longrightarrow> 1 / (K2 - K1) * max (S - K1) 0 + (- 1 / (K2 - K1)) * max (S - K2) 0 = 1"
    and "S \<le> K1 \<Longrightarrow> 1 / (K2 - K1) * max (S - K1) 0 + (- 1 / (K2 - K1)) * max (S - K2) 0 = 0"
  using assms unfolding spread_combination by (simp_all add: max_def)

lemma put_spread_outside:
  fixes K1 K2 S :: rat
  assumes "K1 < K2"
  shows "S \<le> K1 \<Longrightarrow> 1 / (K2 - K1) * max (K1 - S) 0 + (- 1 / (K2 - K1)) * max (K2 - S) 0 = - 1"
    and "K2 \<le> S \<Longrightarrow> 1 / (K2 - K1) * max (K1 - S) 0 + (- 1 / (K2 - K1)) * max (K2 - S) 0 = 0"
proof -
  assume below: "S \<le> K1"
  have m: "max (K1 - S) 0 = K1 - S" "max (K2 - S) 0 = K2 - S"
    using below assms by (simp_all add: max_def)
  have "(K1 - S - (K2 - S)) / (K2 - K1) = (K1 - K2) / (K2 - K1)" by simp
  also have "\<dots> = - 1" using assms by (simp add: divide_eq_minus_1_iff)
  finally show "1 / (K2 - K1) * max (K1 - S) 0 + (- 1 / (K2 - K1)) * max (K2 - S) 0 = - 1"
    by (simp only: spread_combination m)
next
  assume "K2 \<le> S"
  then show "1 / (K2 - K1) * max (K1 - S) 0 + (- 1 / (K2 - K1)) * max (K2 - S) 0 = 0"
    using assms unfolding spread_combination by (simp add: max_def)
qed

lemma replicated_payoff_outside_spread:
  assumes rep: "replicate_binary_option df cls T e p = Inr r"
    and sel: "select_strikes df cls T e p = Inr (K1, K2)"
    and lt: "K1 < K2" and p1: "plain_decimal K1" and p2: "plain_decimal K2"
  shows "\<exists>I R. plot_binary_replication_payoff X cls r (Some P)
                 = Inr \<lparr>prices = P, ideal_payoff = I, replicated_payoff = R\<rparr>
           \<and> length R = length P
           \<and> (\<forall>i<length P.
                 (K2 \<le> P ! i \<longrightarrow> R ! i = Fin (if cls = ''call'' then 1 else 0))
               \<and> (P ! i \<le> K1 \<longrightarrow> R ! i = Fin (if cls = ''call'' then 0 else - 1)))"
proof -
  let ?dfc = "df_class (df_expiry df e) cls"
  let ?fn = "if cls = ''call'' then ''C'' else ''P''"
  let ?w = "1 / (K2 - K1)"
  have c: "cls = ''call'' \<or> cls = ''put''"
    and m: "K1 \<in> strike ` set ?dfc" "K2 \<in> strike ` set ?dfc"
    using select_strikes_members [OF sel] by (simp_all add: available_strikes_def)
  have b: "Inr r = build_replication ?dfc cls ?fn K1 K2"
    using rep replicate_via_build [OF sel] by simp
  have ne: "K2 - K1 \<noteq> 0" using lt by simp
  obtain leg1 leg2 where l: "option_1 r = Some leg1" "weight leg1 = Some (Fin ?w)"
      "option_2 r = Some leg2" "weight leg2 = Some (Fin (- 1 / (K2 - K1)))"
    using b ne by (simp add: build_replication_rows [OF m])
  have k: "strikes_from_note X r = Inr (Fin K1, Fin K2)"
    using rep sel p1 p2 by (rule note_round_trip)
  from plot_finite_weights [OF c k l, of "Some P"]
  have plot: "plot_binary_replication_payoff X cls r (Some P) =
          Inr \<lparr>prices = P,
               ideal_payoff =
                 map (\<lambda>S. if (if cls = ''call'' then X \<le> S else S \<le> X) then 1 else 0) P,
               replicated_payoff =
                 map (\<lambda>S. Fin (if cls = ''call''
                                then ?w * max (S - K1) 0 + (- 1 / (K2 - K1)) * max (S - K2) 0
                                else ?w * max (K1 - S) 0 + (- 1 / (K2 - K1)) * max (K2 - S) 0)) P\<rparr>"
    by auto
  show ?thesis
    unfolding plot
    using c call_spread_outside [OF lt] put_spread_outside [OF lt]
    by (intro exI conjI) (rule refl, auto)
qed

text \<open>
  C1, the failing input. The put replication of the scenario (K1 = 9500, K2 = 10000,
  weights 1/500 and -1/500) evaluates to -1 at the prices 9000 and 9500, where the ideal
  payoff is 1, and to 0 from 10000 on.
\<close>

theorem put_replication_negated:
  "replicate_binary_option scenario_table ''put'' 10000 1735286400000 500
     = Inr scenario_put_replication
   \<and> select_strikes scenario_table ''put'' 10000 1735286400000 500 = Inr (9500, 10000)
   \<and> plot_binary_replication_payoff 10000 ''put'' scenario_put_replication
        (Some [9000, 9500, 9750, 10000, 10500])
      = Inr \<lparr>prices = [9000, 9500, 9750, 10000, 10500],
              ideal_payoff = [1, 1, 1, 1, 0],
              replicated_payoff = [Fin (- 1), Fin (- 1), Fin (- 1 / 2), Fin 0, Fin 0]\<rparr>"
  unfolding replicate_scenario_put sel_put plot_binary_replication_payoff_def
    strikes_scenario_put
  by (simp add: Let_def put_payoff_def np_sub_def leg_weight_def scenario_put_replication_def)

end
